theory Spec2Isabelle
  imports Main "HOL-Library.Word"
begin

unbundle bit_operations_syntax

section \<open>The sequential allocation container \<open>mgi::CSeqAllocCont\<close>\<close>

text \<open>
  The development embeds \<^verbatim>\<open>mgiContainer.h\<close>. The target is taken to be LP64:
  \<^verbatim>\<open>uintptr_t\<close> and \<^verbatim>\<open>size_t\<close> are 64-bit words with wrap-around arithmetic, the template
  parameter \<^verbatim>\<open>unsigned int nBlockSize\<close> is a 32-bit word. Pointers are their
  \<^verbatim>\<open>uintptr_t\<close> values and \<^verbatim>\<open>nullptr\<close> is 0.
\<close>

type_synonym uintptr_t = "64 word"
type_synonym size_t = "64 word"

text \<open>
  \<^verbatim>\<open>struct NODE_t { char data[nBlockSize]; NODE_t* next; }\<close>. The container never reads
  the bytes of \<^verbatim>\<open>data\<close>, it only computes addresses inside the array, so a node of the
  store carries the link alone. \<^verbatim>\<open>data\<close> is the first member: it starts at the node's
  own address and \<^verbatim>\<open>&p->data[nBlockSize]\<close> is \<open>nBlockSize\<close> bytes further.
\<close>

record NODE_t =
  "next" :: uintptr_t

definition data_begin :: "uintptr_t \<Rightarrow> uintptr_t" where
  "data_begin p = p"

definition data_end :: "32 word \<Rightarrow> uintptr_t \<Rightarrow> uintptr_t" where
  "data_end nBlockSize p = p + ucast nBlockSize"

text \<open>
  A call \<^verbatim>\<open>Allocate<T>(args...)\<close> depends on \<^verbatim>\<open>T\<close> and the arguments through \<^verbatim>\<open>sizeof(T)\<close>,
  \<^verbatim>\<open>__alignof(T)\<close> and the constructor call \<^verbatim>\<open>T(args...)\<close> of line 97. The constructor
  writes the bytes of the object; \<open>ctor_throws\<close> tells whether it ends with an exception.
\<close>

record ctype =
  sizeof :: size_t
  alignof :: size_t
  ctor_throws :: bool

text \<open>The two \<^verbatim>\<open>static_assert\<close>s: of the class template and of \<^verbatim>\<open>Allocate\<close>.\<close>

definition static_assert_BlockSize :: "32 word \<Rightarrow> bool" where
  "static_assert_BlockSize nBlockSize \<longleftrightarrow> nBlockSize > 128"

definition static_assert_sizeof :: "32 word \<Rightarrow> ctype \<Rightarrow> bool" where
  "static_assert_sizeof nBlockSize T \<longleftrightarrow> sizeof T \<le> ucast nBlockSize"

text \<open>
  Both throw sites of the file raise \<^verbatim>\<open>std::bad_alloc\<close>: the \<^verbatim>\<open>new\<close> expressions when the
  memory source is exhausted, and line 93 explicitly. An exception of the constructor of
  \<^verbatim>\<open>T\<close> leaves \<^verbatim>\<open>Allocate\<close> as it is. Reading or writing a member of a node that is not
  live (a null or dangling pointer), deleting such a node, and constructing an object on
  bytes that are not bytes of the \<^verbatim>\<open>data\<close> array of a live node are undefined behaviour,
  which the model reports as an error of its own; the state returned with it says which
  assignments were executed before, and nothing about the memory afterwards.
\<close>

datatype error = Bad_alloc | Constructor_exception | Undefined_behaviour

text \<open>
  The container with the part of the free store it uses. \<open>store\<close> maps the address of
  every live node to the node. \<open>avail\<close> is the memory source: the addresses the coming
  \<^verbatim>\<open>new NODE_t\<close> expressions return, in order; when it is empty \<^verbatim>\<open>new\<close> throws.
  \<open>released\<close> logs the nodes given back by \<^verbatim>\<open>delete\<close>, oldest first.
\<close>

record arena =
  pHead :: uintptr_t
  pLast :: uintptr_t
  pCurrent :: uintptr_t
  store :: "uintptr_t \<rightharpoonup> NODE_t"
  avail :: "uintptr_t list"
  released :: "uintptr_t list"

text \<open>
  The constructor (line 63): \<^verbatim>\<open>pHead(new NODE_t{{0}, nullptr}), pLast(pHead),
  pCurrent((uintptr_t)pHead)\<close>, from a memory source.
\<close>

definition CSeqAllocCont :: "uintptr_t list \<Rightarrow> error + arena" where
  "CSeqAllocCont src =
     (case src of
        [] \<Rightarrow> Inl Bad_alloc
      | a # as \<Rightarrow>
          Inr \<lparr>pHead = a, pLast = a, pCurrent = a,
               store = [a \<mapsto> \<lparr>next = 0\<rparr>], avail = as, released = []\<rparr>)"

subsection \<open>\<^verbatim>\<open>Allocate\<close>\<close>

text \<open>
  Lines 76 to 80, the step commented "confirm alignment requirement":
  \<^verbatim>\<open>if ((pCurrent & __alignof(T)) != 0) { pCurrent &= __alignof(T); pCurrent += __alignof(T); }\<close>
\<close>

definition align_fix :: "ctype \<Rightarrow> arena \<Rightarrow> arena" where
  "align_fix T s =
     (if pCurrent s AND alignof T \<noteq> 0
      then s\<lparr>pCurrent := (pCurrent s AND alignof T) + alignof T\<rparr>
      else s)"

text \<open>The test of lines 81 and 92:
  \<^verbatim>\<open>pCurrent + sizeof(T) > (uintptr_t)&pLast->data[nBlockSize]\<close>.\<close>

definition exceeds :: "32 word \<Rightarrow> ctype \<Rightarrow> arena \<Rightarrow> bool" where
  "exceeds nBlockSize T s \<longleftrightarrow> pCurrent s + sizeof T > data_end nBlockSize (pLast s)"

text \<open>
  Lines 83 to 85:
  \<^verbatim>\<open>if (pLast->next == nullptr) pLast->next = new NODE_t{{0}, nullptr};
  pLast = pLast->next; pCurrent = (uintptr_t)pLast;\<close>
  The result is the exception, if any, with the state the container is left in.
\<close>

definition next_block :: "arena \<Rightarrow> error option \<times> arena" where
  "next_block s =
     (case store s (pLast s) of
        None \<Rightarrow> (Some Undefined_behaviour, s)
      | Some nd \<Rightarrow>
          if next nd = 0 then
            (case avail s of
               [] \<Rightarrow> (Some Bad_alloc, s)
             | a # as \<Rightarrow>
                 (None, s\<lparr>store := ((store s)(a \<mapsto> \<lparr>next = 0\<rparr>))(pLast s \<mapsto> nd\<lparr>next := a\<rparr>),
                          avail := as, pLast := a, pCurrent := a\<rparr>))
          else (None, s\<lparr>pLast := next nd, pCurrent := next nd\<rparr>))"

text \<open>
  The bytes of an object of type \<open>T\<close> at \<open>p\<close> are bytes of the \<^verbatim>\<open>data\<close> array of the node
  at \<open>b\<close>, on the numbers the words stand for; and they are bytes of the \<^verbatim>\<open>data\<close> array of
  some live node.
\<close>

definition within_block :: "32 word \<Rightarrow> uintptr_t \<Rightarrow> ctype \<Rightarrow> uintptr_t \<Rightarrow> bool" where
  "within_block nBlockSize b T p \<longleftrightarrow>
     unat (data_begin b) \<le> unat p \<and> unat p + unat (sizeof T) \<le> unat b + unat nBlockSize"

definition storage_live ::
  "32 word \<Rightarrow> (uintptr_t \<rightharpoonup> NODE_t) \<Rightarrow> ctype \<Rightarrow> uintptr_t \<Rightarrow> bool" where
  "storage_live nBlockSize st T p \<longleftrightarrow> (\<exists>b \<in> dom st. within_block nBlockSize b T p)"

text \<open>
  Lines 95 to 97: \<^verbatim>\<open>void* pRet = (void*)pCurrent; pCurrent += sizeof(T);
  return new(pRet) T(...)\<close>. The cursor is advanced first. The constructor then writes
  the \<^verbatim>\<open>sizeof(T)\<close> bytes at \<^verbatim>\<open>pRet\<close>: inside the \<^verbatim>\<open>data\<close> array of a live node this changes
  no link of the store; anywhere else (outside every block, or across the \<^verbatim>\<open>next\<close> member
  of a node) it is undefined behaviour. The constructor may throw. Otherwise the
  placement form of \<^verbatim>\<open>new\<close> returns \<^verbatim>\<open>pRet\<close> as it is.
\<close>

definition bump :: "32 word \<Rightarrow> ctype \<Rightarrow> arena \<Rightarrow> (error + uintptr_t) \<times> arena" where
  "bump nBlockSize T s =
     (let pRet = pCurrent s; s' = s\<lparr>pCurrent := pCurrent s + sizeof T\<rparr>
      in if \<not> storage_live nBlockSize (store s) T pRet then (Inl Undefined_behaviour, s')
         else if ctor_throws T then (Inl Constructor_exception, s')
         else (Inr pRet, s'))"

text \<open>Lines 87 to 97: the second alignment step with its \<^verbatim>\<open>throw\<close>, then the placement.\<close>

definition place :: "32 word \<Rightarrow> ctype \<Rightarrow> arena \<Rightarrow> (error + uintptr_t) \<times> arena" where
  "place nBlockSize T s =
     (if pCurrent s AND alignof T \<noteq> 0 then
        (let s' = s\<lparr>pCurrent := (pCurrent s AND alignof T) + alignof T\<rparr>
         in if exceeds nBlockSize T s' then (Inl Bad_alloc, s') else bump nBlockSize T s')
      else bump nBlockSize T s)"

text \<open>
  \<^verbatim>\<open>Allocate<T>\<close>, lines 73 to 98. An exception leaves the container in the state reached
  when it was thrown, so the state is returned in every case.
\<close>

definition Allocate :: "32 word \<Rightarrow> ctype \<Rightarrow> arena \<Rightarrow> (error + uintptr_t) \<times> arena" where
  "Allocate nBlockSize T s =
     (let s1 = align_fix T s
      in if exceeds nBlockSize T s1 then
           (case next_block s1 of
              (Some e, s2) \<Rightarrow> (Inl e, s2)
            | (None, s2) \<Rightarrow> place nBlockSize T s2)
         else place nBlockSize T s1)"

subsection \<open>\<^verbatim>\<open>Clean\<close>, \<^verbatim>\<open>Reset\<close> and the destructor\<close>

text \<open>Lines 103 to 107: \<^verbatim>\<open>pLast = pHead; pCurrent = (uintptr_t)pHead;\<close>\<close>

definition Clean :: "arena \<Rightarrow> arena" where
  "Clean s = s\<lparr>pLast := pHead s, pCurrent := pHead s\<rparr>"

text \<open>
  The loop of lines 116 to 120:
  \<^verbatim>\<open>while (pLast != nullptr) { NODE_t* pTemp = pLast; pLast = pLast->next; delete pTemp; }\<close>
  Every round takes a live node out of the store, and the store of a 64-bit address
  space is finite, which bounds the number of rounds.
\<close>

function Reset_loop :: "arena \<Rightarrow> error + arena" where
  "Reset_loop s =
     (if pLast s = 0 then Inr s
      else
        (case store s (pLast s) of
           None \<Rightarrow> Inl Undefined_behaviour
         | Some nd \<Rightarrow>
             Reset_loop (s\<lparr>pLast := next nd,
                           store := (store s)(pLast s := None),
                           released := released s @ [pLast s]\<rparr>)))"
  by pat_completeness auto
termination
proof (relation "measure (\<lambda>s. card (dom (store s)))")
  show "wf (measure (\<lambda>s. card (dom (store s))))"
    by simp
next
  fix s :: arena and nd
  assume live: "store s (pLast s) = Some nd"
  have "pLast s \<in> dom (store s)"
    using live by blast
  moreover have "finite (dom (store s))"
    by simp
  ultimately have "card (dom (store s) - {pLast s}) < card (dom (store s))"
    by (intro card_Diff1_less)
  then show "(s\<lparr>pLast := next nd, store := (store s)(pLast s := None),
                 released := released s @ [pLast s]\<rparr>, s)
             \<in> measure (\<lambda>s. card (dom (store s)))"
    by simp
qed

text \<open>Lines 112 to 121: \<^verbatim>\<open>pLast = pHead->next; pHead->next = nullptr;\<close> and the loop.\<close>

definition Reset :: "arena \<Rightarrow> error + arena" where
  "Reset s =
     (case store s (pHead s) of
        None \<Rightarrow> Inl Undefined_behaviour
      | Some nd \<Rightarrow>
          Reset_loop (s\<lparr>pLast := next nd,
                        store := (store s)(pHead s \<mapsto> nd\<lparr>next := 0\<rparr>)\<rparr>))"

text \<open>
  \<^verbatim>\<open>delete p\<close> on a node: nothing for a null pointer, undefined behaviour for a pointer
  to no live node.
\<close>

definition delete_node :: "uintptr_t \<Rightarrow> arena \<Rightarrow> error + arena" where
  "delete_node p s =
     (if p = 0 then Inr s
      else
        (case store s p of
           None \<Rightarrow> Inl Undefined_behaviour
         | Some nd \<Rightarrow> Inr (s\<lparr>store := (store s)(p := None), released := released s @ [p]\<rparr>)))"

text \<open>The destructor, lines 122 to 126: \<^verbatim>\<open>Reset(); delete pHead;\<close>\<close>

definition destroy :: "arena \<Rightarrow> error + arena" where
  "destroy s =
     (case Reset s of
        Inl e \<Rightarrow> Inl e
      | Inr s' \<Rightarrow> delete_node (pHead s') s')"

subsection \<open>Callers: a sequence of allocations\<close>

text \<open>
  \<open>Allocate_seq nBlockSize Ts\<close> is a caller that allocates one object of every type of
  \<open>Ts\<close> in turn and collects the pointers. An exception ends the sequence, as it leaves
  the calling function.
\<close>

fun Allocate_seq ::
  "32 word \<Rightarrow> ctype list \<Rightarrow> arena \<Rightarrow> (error + uintptr_t list) \<times> arena" where
  "Allocate_seq nBlockSize [] s = (Inr [], s)"
| "Allocate_seq nBlockSize (T # Ts) s =
     (case Allocate nBlockSize T s of
        (Inl e, s') \<Rightarrow> (Inl e, s')
      | (Inr p, s') \<Rightarrow>
          (case Allocate_seq nBlockSize Ts s' of
             (Inl e, s'') \<Rightarrow> (Inl e, s'')
           | (Inr ps, s'') \<Rightarrow> (Inr (p # ps), s'')))"

subsection \<open>The block chain and the predicates of the specification\<close>

text \<open>
  \<open>chain st p ps\<close>: following the \<open>next\<close> links of the store from \<open>p\<close> visits the live
  nodes \<open>ps\<close>, in this order, and then reaches \<^verbatim>\<open>nullptr\<close>.
\<close>

primrec chain :: "(uintptr_t \<rightharpoonup> NODE_t) \<Rightarrow> uintptr_t \<Rightarrow> uintptr_t list \<Rightarrow> bool" where
  "chain st p [] \<longleftrightarrow> p = 0"
| "chain st p (a # as) \<longleftrightarrow>
     p = a \<and> a \<noteq> 0 \<and> (case st a of None \<Rightarrow> False | Some nd \<Rightarrow> chain st (next nd) as)"

text \<open>The blocks of a container: the chain of its head, which is not null.\<close>

definition chain_of :: "arena \<Rightarrow> uintptr_t list \<Rightarrow> bool" where
  "chain_of s ps \<longleftrightarrow> pHead s \<noteq> 0 \<and> chain (store s) (pHead s) ps"

text \<open>
  What \<^verbatim>\<open>operator new\<close> promises: the addresses the memory source is going to return are
  not null, differ from one another and from every live node.
\<close>

definition fresh_source :: "arena \<Rightarrow> bool" where
  "fresh_source s \<longleftrightarrow>
     distinct (avail s) \<and> (\<forall>a \<in> set (avail s). a \<noteq> 0 \<and> store s a = None)"


text \<open>
  The ready state of the specification: the tail is a node of the chain of the head, and
  the cursor is in the storage of the tail, its end included (a block filled to the last
  byte leaves the cursor there).
\<close>

definition tail_reachable :: "arena \<Rightarrow> bool" where
  "tail_reachable s \<longleftrightarrow> (\<exists>ps. chain_of s ps \<and> pLast s \<in> set ps)"

definition cursor_in_tail :: "32 word \<Rightarrow> arena \<Rightarrow> bool" where
  "cursor_in_tail nBlockSize s \<longleftrightarrow>
     data_begin (pLast s) \<le> pCurrent s \<and> pCurrent s \<le> data_end nBlockSize (pLast s)"

definition ready :: "32 word \<Rightarrow> arena \<Rightarrow> bool" where
  "ready nBlockSize s \<longleftrightarrow> tail_reachable s \<and> cursor_in_tail nBlockSize s"

text \<open>
  Placement validity, on the numbers the words stand for: the address is a multiple of
  the alignment; the bytes of two objects overlap. That the bytes of the object are
  bytes of the storage of block \<open>b\<close> is \<open>within_block\<close> above.
\<close>

definition is_aligned :: "ctype \<Rightarrow> uintptr_t \<Rightarrow> bool" where
  "is_aligned T p \<longleftrightarrow> unat p mod unat (alignof T) = 0"

definition ranges_overlap :: "ctype \<Rightarrow> uintptr_t \<Rightarrow> ctype \<Rightarrow> uintptr_t \<Rightarrow> bool" where
  "ranges_overlap T p U q \<longleftrightarrow>
     unat p < unat q + unat (sizeof U) \<and> unat q < unat p + unat (sizeof T)"

text \<open>
  The next address that satisfies the alignment of \<open>T\<close>, as the specification words the
  alignment correction.
\<close>

definition round_up :: "ctype \<Rightarrow> uintptr_t \<Rightarrow> nat" where
  "round_up T p = ((unat p + unat (alignof T) - 1) div unat (alignof T)) * unat (alignof T)"

subsection \<open>Concrete types and containers\<close>

text \<open>
  \<^verbatim>\<open>char\<close>; \<^verbatim>\<open>int32_t\<close>; a structure of 4088 \<^verbatim>\<open>char\<close>s; a structure of 128 bytes aligned to
  8; a structure of 160 bytes declared \<^verbatim>\<open>alignas(32)\<close>; structures of 65536 and of 65537
  \<^verbatim>\<open>char\<close>s; a structure of 65536 bytes declared \<^verbatim>\<open>alignas(65536)\<close>. Their constructors do
  not throw.
\<close>

definition ex_char :: ctype where
  "ex_char = \<lparr>sizeof = 1, alignof = 1, ctor_throws = False\<rparr>"

definition ex_int :: ctype where
  "ex_int = \<lparr>sizeof = 4, alignof = 4, ctor_throws = False\<rparr>"

definition ex_buf :: ctype where
  "ex_buf = \<lparr>sizeof = 4088, alignof = 1, ctor_throws = False\<rparr>"

definition ex_half :: ctype where
  "ex_half = \<lparr>sizeof = 128, alignof = 8, ctor_throws = False\<rparr>"

definition ex_wide :: ctype where
  "ex_wide = \<lparr>sizeof = 160, alignof = 32, ctor_throws = False\<rparr>"

definition ex_bytes :: ctype where
  "ex_bytes = \<lparr>sizeof = 0x10000, alignof = 1, ctor_throws = False\<rparr>"

definition ex_span :: ctype where
  "ex_span = \<lparr>sizeof = 0x10001, alignof = 1, ctor_throws = False\<rparr>"

definition ex_page :: ctype where
  "ex_page = \<lparr>sizeof = 0x10000, alignof = 0x10000, ctor_throws = False\<rparr>"

text \<open>
  \<open>ex_arena h c src\<close> is a container of one block at \<open>h\<close> with the cursor at \<open>c\<close> and the
  memory source \<open>src\<close>; \<open>ex_arena2 h b c src\<close> has a second block \<open>b\<close>, which is the
  tail.
\<close>

definition ex_arena :: "uintptr_t \<Rightarrow> uintptr_t \<Rightarrow> uintptr_t list \<Rightarrow> arena" where
  "ex_arena h c src =
     \<lparr>pHead = h, pLast = h, pCurrent = c, store = [h \<mapsto> \<lparr>next = 0\<rparr>],
      avail = src, released = []\<rparr>"

definition ex_arena2 :: "uintptr_t \<Rightarrow> uintptr_t \<Rightarrow> uintptr_t \<Rightarrow> uintptr_t list \<Rightarrow> arena" where
  "ex_arena2 h b c src =
     \<lparr>pHead = h, pLast = b, pCurrent = c,
      store = [h \<mapsto> \<lparr>next = b\<rparr>, b \<mapsto> \<lparr>next = 0\<rparr>], avail = src, released = []\<rparr>"

section \<open>Properties\<close>

subsection \<open>Chains\<close>

lemma chain_null: "chain st 0 ps \<longleftrightarrow> ps = []"
  by (cases ps) auto

lemma chain_live: "chain st p ps \<Longrightarrow> a \<in> set ps \<Longrightarrow> a \<noteq> 0 \<and> st a \<noteq> None"
  by (induction ps arbitrary: p) (auto split: option.splits)

lemma chain_unique: "chain st p ps \<Longrightarrow> chain st p qs \<Longrightarrow> ps = qs"
proof (induction ps arbitrary: p qs)
  case Nil
  then show ?case by (simp add: chain_null)
next
  case (Cons a ps)
  then show ?case
    by (cases qs) (auto split: option.splits)
qed

text \<open>A node of a chain starts a chain of its own, which is shorter.\<close>

lemma chain_suffix:
  "chain st p ps \<Longrightarrow> a \<in> set ps \<Longrightarrow> \<exists>qs. chain st a (a # qs) \<and> length qs < length ps"
proof (induction ps arbitrary: p)
  case Nil
  then show ?case by simp
next
  case (Cons b ps)
  show ?case
  proof (cases "a = b")
    case True
    with Cons.prems show ?thesis by auto
  next
    case False
    with Cons.prems obtain nd where "st b = Some nd" "chain st (next nd) ps" "a \<in> set ps"
      by (auto split: option.splits)
    from Cons.IH [OF this(2,3)] show ?thesis
      by auto
  qed
qed

text \<open>A chain ends at \<^verbatim>\<open>nullptr\<close>, so it cannot come back to a node.\<close>

lemma chain_head_notin_tail:
  assumes "chain st p (a # ps)"
  shows "a \<notin> set ps"
proof
  assume "a \<in> set ps"
  from assms obtain nd where nd: "st a = Some nd" "chain st (next nd) ps"
    by (auto split: option.splits)
  from chain_suffix [OF nd(2) \<open>a \<in> set ps\<close>]
  obtain qs where qs: "chain st a (a # qs)" "length qs < length ps"
    by blast
  from assms have "chain st a (a # ps)" by simp
  with qs(1) have "qs = ps"
    using chain_unique by blast
  with qs(2) show False by simp
qed

lemma chain_upd_other: "u \<notin> set ps \<Longrightarrow> chain (st(u := v)) p ps = chain st p ps"
  by (induction ps arbitrary: p) (auto split: option.splits)

lemma NODE_t_next_update [simp]: "(nd :: NODE_t)\<lparr>next := a\<rparr> = \<lparr>next = a\<rparr>"
  by (cases nd) simp

text \<open>
  Linking a new node \<open>a\<close> behind a node \<open>q\<close> that has no successor appends \<open>a\<close> to the
  chain when \<open>q\<close> is on it, and leaves the chain alone otherwise.
\<close>

lemma chain_append_new:
  assumes "chain st p ps" "st a = None" "a \<noteq> 0" "st q = Some nd" "next nd = 0"
  shows "chain ((st(a \<mapsto> \<lparr>next = 0\<rparr>))(q \<mapsto> \<lparr>next = a\<rparr>)) p
           (if q \<in> set ps then ps @ [a] else ps)"
proof -
  define st' where "st' = (st(a \<mapsto> \<lparr>next = 0\<rparr>))(q \<mapsto> \<lparr>next = a\<rparr>)"
  have neq: "a \<noteq> q"
    using assms(2,4) by auto
  have st'_q: "st' q = Some \<lparr>next = a\<rparr>" and st'_a: "st' a = Some \<lparr>next = 0\<rparr>"
    using neq by (simp_all add: st'_def)
  have st'_other: "st' x = st x" if "x \<noteq> q" "st x \<noteq> None" for x
    using that assms(2) by (auto simp: st'_def)
  have "chain st' p (if q \<in> set ps then ps @ [a] else ps)"
    using assms(1)
  proof (induction ps arbitrary: p)
    case Nil
    then show ?case by simp
  next
    case (Cons x ps)
    from Cons.prems obtain nx where
      x: "p = x" "x \<noteq> 0" "st x = Some nx" and rest: "chain st (next nx) ps"
      by (auto split: option.splits)
    show ?case
    proof (cases "q = x")
      case True
      with x assms(4,5) rest have "ps = []"
        by (simp add: chain_null)
      with True x st'_q st'_a assms(3) show ?thesis
        by simp
    next
      case False
      then have "st' x = Some nx"
        using st'_other [of x] x(3) by simp
      with Cons.IH [OF rest] x False show ?thesis
        by (cases "q \<in> set ps") simp_all
    qed
  qed
  then show ?thesis
    by (simp only: st'_def)
qed

subsection \<open>The steps of \<^verbatim>\<open>Allocate\<close>\<close>

lemmas Allocate_eval =
  Allocate_def align_fix_def exceeds_def data_end_def data_begin_def place_def bump_def
  storage_live_def within_block_def next_block_def Let_def

lemma align_fix_fields:
  "pHead (align_fix T s) = pHead s" "pLast (align_fix T s) = pLast s"
  "store (align_fix T s) = store s" "avail (align_fix T s) = avail s"
  "released (align_fix T s) = released s"
  by (simp_all add: align_fix_def)

lemma place_fields:
  assumes "place N T s = (r, s')"
  shows "pHead s' = pHead s" "pLast s' = pLast s" "store s' = store s"
    "avail s' = avail s" "released s' = released s"
  using assms by (auto simp: place_def bump_def Let_def split: if_splits)


lemma next_block_cases:
  assumes "next_block s = (r, s')"
  obtains
    (ub) "store s (pLast s) = None" "r = Some Undefined_behaviour" "s' = s"
  | (oom) nd where "store s (pLast s) = Some nd" "next nd = 0" "avail s = []"
      "r = Some Bad_alloc" "s' = s"
  | (grow) nd a as where "store s (pLast s) = Some nd" "next nd = 0" "avail s = a # as"
      "r = None"
      "s' = s\<lparr>store := ((store s)(a \<mapsto> \<lparr>next = 0\<rparr>))(pLast s \<mapsto> \<lparr>next = a\<rparr>),
               avail := as, pLast := a, pCurrent := a\<rparr>"
  | (reuse) nd where "store s (pLast s) = Some nd" "next nd \<noteq> 0" "r = None"
      "s' = s\<lparr>pLast := next nd, pCurrent := next nd\<rparr>"
  using assms
  by (auto simp: next_block_def split: option.splits if_splits list.splits)

lemma Allocate_cases:
  assumes "Allocate N T s = (r, s')"
  obtains
    (stay) "\<not> exceeds N T (align_fix T s)" "place N T (align_fix T s) = (r, s')"
  | (fail) e where "exceeds N T (align_fix T s)"
      "next_block (align_fix T s) = (Some e, s')" "r = Inl e"
  | (switch) s2 where "exceeds N T (align_fix T s)"
      "next_block (align_fix T s) = (None, s2)" "place N T s2 = (r, s')"
  using assms
  by (auto simp: Allocate_def Let_def split: if_splits prod.splits option.splits)

subsection \<open>Replaying a run of allocations\<close>








subsection \<open>\<^verbatim>\<open>Reset\<close> on a chain\<close>

lemma Reset_loop_chain:
  "chain (store t) (pLast t) qs \<Longrightarrow>
   Reset_loop t =
     Inr (t\<lparr>pLast := 0, store := store t |` (- set qs), released := released t @ qs\<rparr>)"
proof (induction qs arbitrary: t)
  case Nil
  then show ?case by simp
next
  case (Cons q qs)
  from Cons.prems obtain nd where
    q: "pLast t = q" "q \<noteq> 0" "store t q = Some nd" and rest: "chain (store t) (next nd) qs"
    by (auto split: option.splits)
  have notin: "q \<notin> set qs"
    using Cons.prems by (rule chain_head_notin_tail)
  let ?t = "t\<lparr>pLast := next nd, store := (store t)(pLast t := None),
               released := released t @ [pLast t]\<rparr>"
  have "chain (store ?t) (pLast ?t) qs"
    using rest notin q(1) by (simp add: chain_upd_other)
  from Cons.IH [OF this]
  have "Reset_loop ?t =
          Inr (?t\<lparr>pLast := 0, store := store ?t |` (- set qs), released := released ?t @ qs\<rparr>)" .
  moreover have "((store t)(q := None)) |` (- set qs) = store t |` (- set (q # qs))"
    by (rule ext) (simp add: restrict_map_def)
  moreover have "Reset_loop t = Reset_loop ?t"
    using q by (subst Reset_loop.simps) simp
  ultimately show ?case
    using q(1) by simp
qed

text \<open>
  On a container whose head starts a chain \<^verbatim>\<open>Reset\<close> returns: the head is kept without
  a successor, the other blocks are released in chain order, the tail pointer is left
  null and the cursor where it was.
\<close>

lemma Reset_chain:
  assumes "chain_of s (h # ps)"
  shows "Reset s =
           Inr (s\<lparr>pLast := 0,
                  store := ((store s)(h \<mapsto> \<lparr>next = 0\<rparr>)) |` (- set ps),
                  released := released s @ ps\<rparr>)"
proof -
  from assms obtain nd where
    h: "pHead s = h" "h \<noteq> 0" "store s h = Some nd" and rest: "chain (store s) (next nd) ps"
    by (auto simp: chain_of_def split: option.splits)
  have notin: "h \<notin> set ps"
    using assms unfolding chain_of_def by (blast dest: chain_head_notin_tail)
  let ?t = "s\<lparr>pLast := next nd, store := (store s)(pHead s \<mapsto> nd\<lparr>next := 0\<rparr>)\<rparr>"
  have "chain (store ?t) (pLast ?t) ps"
    using rest notin h(1) by (simp add: chain_upd_other)
  from Reset_loop_chain [OF this] h show ?thesis
    by (simp add: Reset_def)
qed

subsection \<open>The states the interface produces\<close>

text \<open>
  The theorems below assume a chain at the head and a memory source that keeps its
  promise. The constructor establishes both, \<^verbatim>\<open>Clean\<close> and \<^verbatim>\<open>Reset\<close> keep them, and so does
  \<^verbatim>\<open>Allocate\<close> (\<open>Allocate_keeps_links\<close> and \<open>chain_append_new\<close> above).
\<close>

lemma CSeqAllocCont_start:
  assumes "CSeqAllocCont src = Inr s" "distinct src" "0 \<notin> set src"
  shows "fresh_source s \<and> chain_of s [pHead s] \<and> pLast s = pHead s \<and>
         pCurrent s = data_begin (pHead s)"
  using assms
  by (cases src) (auto simp: CSeqAllocCont_def fresh_source_def chain_of_def data_begin_def)

lemma Clean_start:
  "fresh_source (Clean s) = fresh_source s \<and> chain_of (Clean s) ps = chain_of s ps \<and>
   pLast (Clean s) = pHead (Clean s) \<and> pCurrent (Clean s) = data_begin (pHead (Clean s))"
  by (simp add: Clean_def fresh_source_def chain_of_def data_begin_def)

lemma Reset_keeps_chain:
  assumes "chain_of s ps" "fresh_source s" "Reset s = Inr s'"
  shows "chain_of s' [pHead s] \<and> fresh_source s'"
proof -
  from assms(1) obtain h qs where ps: "ps = h # qs" and h: "pHead s = h" "h \<noteq> 0"
    by (cases ps) (auto simp: chain_of_def)
  have notin: "h \<notin> set qs"
    using assms(1) unfolding chain_of_def ps by (blast dest: chain_head_notin_tail)
  from Reset_chain [OF assms(1) [unfolded ps]] assms(3)
  have s': "s' = s\<lparr>pLast := 0, store := ((store s)(h \<mapsto> \<lparr>next = 0\<rparr>)) |` (- set qs),
                  released := released s @ qs\<rparr>"
    by simp
  from assms(1) have "store s h \<noteq> None"
    by (auto simp: chain_of_def ps split: option.splits)
  with assms(2) have "h \<notin> set (avail s)"
    by (auto simp: fresh_source_def)
  with assms(2) have "fresh_source s'"
    by (auto simp: fresh_source_def s' restrict_map_def)
  moreover have "chain_of s' [pHead s]"
    using h notin by (simp add: chain_of_def s')
  ultimately show ?thesis
    by simp
qed

lemma tail_reachable_not_null: "tail_reachable s \<Longrightarrow> pLast s \<noteq> 0"
  by (auto simp: tail_reachable_def chain_of_def dest: chain_live)

lemmas ex_defs =
  ex_arena_def ex_arena2_def ex_char_def ex_int_def ex_buf_def ex_half_def ex_wide_def
  ex_bytes_def ex_span_def ex_page_def

subsection \<open>\<^verbatim>\<open>Clean\<close>\<close>

text \<open>
  Claim C7. \<^verbatim>\<open>Clean\<close> sets the tail to the head and the cursor to the start of the head's
  storage; it releases no block, takes none from the memory source, and leaves the store,
  hence every block and every \<open>next\<close> link, as it was. \<^verbatim>\<open>Clean\<close> has no failing branch: it
  is a total function from containers to containers.
\<close>

theorem Clean_rewinds:
  "pLast (Clean s) = pHead s \<and> pCurrent (Clean s) = data_begin (pHead s) \<and>
   pHead (Clean s) = pHead s \<and> store (Clean s) = store s \<and>
   released (Clean s) = released s \<and> avail (Clean s) = avail s"
  by (simp add: Clean_def data_begin_def)

subsection \<open>\<^verbatim>\<open>Reset\<close> twice, and the destructor\<close>

text \<open>
  Claim C10. On a container whose head starts a chain, \<^verbatim>\<open>Reset\<close> returns a state \<open>s1\<close>, and
  a second \<^verbatim>\<open>Reset\<close> right after it returns the very same \<open>s1\<close>: head, links, tail pointer,
  cursor and the log of released blocks are those the first call left, so nothing more
  is released. The destructor run on \<open>s1\<close> (\<^verbatim>\<open>Reset\<close>, then \<^verbatim>\<open>delete pHead\<close>) meets no
  undefined behaviour and releases the head, once.
\<close>

theorem Reset_idempotent:
  assumes "chain_of s ps"
  shows "\<exists>s1. Reset s = Inr s1 \<and> Reset s1 = Inr s1 \<and>
              (\<exists>s2. destroy s1 = Inr s2 \<and> released s2 = released s1 @ [pHead s]
                    \<and> store s2 = (store s1)(pHead s := None))"
proof -
  from assms obtain h qs where ps: "ps = h # qs" and h: "pHead s = h" "h \<noteq> 0"
    by (cases ps) (auto simp: chain_of_def)
  have notin: "h \<notin> set qs"
    using assms unfolding chain_of_def ps by (blast dest: chain_head_notin_tail)
  define s1 where
    "s1 = s\<lparr>pLast := 0, store := ((store s)(h \<mapsto> \<lparr>next = 0\<rparr>)) |` (- set qs),
            released := released s @ qs\<rparr>"
  have first: "Reset s = Inr s1"
    using assms unfolding ps s1_def by (rule Reset_chain)
  have head: "store s1 h = Some \<lparr>next = 0\<rparr>" "pHead s1 = h" "pLast s1 = 0"
    using notin h by (simp_all add: s1_def)
  have "(store s1)(h \<mapsto> \<lparr>next = 0\<rparr>) = store s1"
    using head(1) by (simp add: fun_upd_idem)
  then have second: "Reset s1 = Inr s1"
    using head by (simp add: Reset_def)
  have "destroy s1 =
          Inr (s1\<lparr>store := (store s1)(h := None), released := released s1 @ [h]\<rparr>)"
    using second head h by (simp add: destroy_def delete_node_def)
  with first second h show ?thesis
    by simp
qed

text \<open>The theorem at a container of two blocks.\<close>

theorem Reset_idempotent_witness:
  "chain_of (ex_arena2 0x1000 0x2000 0x2FF8 []) [0x1000, 0x2000] \<and>
   (\<exists>s1. Reset (ex_arena2 0x1000 0x2000 0x2FF8 []) = Inr s1 \<and> Reset s1 = Inr s1 \<and>
      (\<exists>s2. destroy s1 = Inr s2 \<and> released s2 = released s1 @ [0x1000] \<and>
            store s2 = (store s1)(0x1000 := None)))"
proof -
  have h: "chain_of (ex_arena2 0x1000 0x2000 0x2FF8 []) [0x1000, 0x2000]"
    by (simp add: chain_of_def ex_arena2_def)
  have "pHead (ex_arena2 0x1000 0x2000 0x2FF8 []) = 0x1000"
    by (simp add: ex_arena2_def)
  with h Reset_idempotent [OF h] show ?thesis
    by simp
qed

subsection \<open>One call, one block at most\<close>

text \<open>
  Claim C9. A call of \<^verbatim>\<open>Allocate\<close>, whatever its outcome, releases nothing and either
  leaves the memory source and the store untouched, or takes exactly one address \<open>a\<close>
  from the source and links the new node behind the tail, which had no successor at
  entry. With a memory source that keeps its promise, the chain of the head is afterwards
  the chain before the call, or that chain with the one node \<open>a\<close> appended.
\<close>

theorem Allocate_acquires_at_most_one:
  assumes "Allocate nBlockSize T s = (r, s')"
  shows "released s' = released s \<and>
         ((avail s' = avail s \<and> store s' = store s) \<or>
          (\<exists>a. avail s = a # avail s' \<and> store s (pLast s) = Some \<lparr>next = 0\<rparr> \<and>
               store s' = ((store s)(a \<mapsto> \<lparr>next = 0\<rparr>))(pLast s \<mapsto> \<lparr>next = a\<rparr>))) \<and>
         (fresh_source s \<and> chain_of s ps \<longrightarrow>
            chain_of s' ps \<or>
            (\<exists>a. chain_of s' (ps @ [a]) \<and> avail s = a # avail s' \<and>
                 store s (pLast s) = Some \<lparr>next = 0\<rparr>))"
  using assms
proof (cases rule: Allocate_cases)
  case stay
  from place_fields [OF stay(2)] show ?thesis
    by (simp add: align_fix_fields chain_of_def)
next
  case (fail e)
  then have "s' = align_fix T s"
    by (auto elim: next_block_cases)
  then show ?thesis
    by (simp add: align_fix_fields chain_of_def)
next
  case (switch s2)
  note s' = place_fields [OF switch(3)]
  from switch(2) show ?thesis
  proof (cases rule: next_block_cases)
    case (grow nd a as)
    have nd: "store s (pLast s) = Some \<lparr>next = 0\<rparr>"
      using grow(1,2) by (cases nd) (simp add: align_fix_fields)
    have part1: "released s' = released s" "avail s = a # avail s'"
      "store s' = ((store s)(a \<mapsto> \<lparr>next = 0\<rparr>))(pLast s \<mapsto> \<lparr>next = a\<rparr>)"
      "pHead s' = pHead s"
      using grow s' by (simp_all add: align_fix_fields)
    have "chain_of s' ps \<or> chain_of s' (ps @ [a])"
      if fresh: "fresh_source s" and ch: "chain_of s ps"
    proof -
      from fresh part1(2) have a: "a \<noteq> 0" "store s a = None"
        by (auto simp: fresh_source_def)
      from ch have "chain (store s) (pHead s) ps"
        by (simp add: chain_of_def)
      from chain_append_new [OF this a(2,1) nd] ch part1 show ?thesis
        by (auto simp: chain_of_def split: if_splits)
    qed
    with part1 nd show ?thesis
      by auto
  next
    case (reuse nd)
    with s' show ?thesis
      by (simp add: align_fix_fields chain_of_def)
  qed simp_all
qed

text \<open>
  The theorem at a container with a full block of 256 bytes, where the call has to take a
  new block.
\<close>

theorem Allocate_acquires_at_most_one_witness:
  "Allocate 256 ex_half (ex_arena 0x1000 0x1100 [0x2000]) =
     (Inr 0x2000, ex_arena2 0x1000 0x2000 0x2080 []) \<and>
   fresh_source (ex_arena 0x1000 0x1100 [0x2000]) \<and>
   chain_of (ex_arena 0x1000 0x1100 [0x2000]) [0x1000] \<and>
   chain_of (ex_arena2 0x1000 0x2000 0x2080 []) ([0x1000] @ [0x2000]) \<and>
   avail (ex_arena 0x1000 0x1100 [0x2000]) = 0x2000 # avail (ex_arena2 0x1000 0x2000 0x2080 []) \<and>
   released (ex_arena2 0x1000 0x2000 0x2080 []) = released (ex_arena 0x1000 0x1100 [0x2000])"
proof -
  have run: "Allocate 256 ex_half (ex_arena 0x1000 0x1100 [0x2000]) =
      (Inr 0x2000, ex_arena2 0x1000 0x2000 0x2080 [])"
    by (simp add: Allocate_eval ex_half_def ex_arena_def ex_arena2_def fun_eq_iff)
  have pre: "fresh_source (ex_arena 0x1000 0x1100 [0x2000])"
    "chain_of (ex_arena 0x1000 0x1100 [0x2000]) [0x1000]"
    by (simp_all add: fresh_source_def chain_of_def ex_arena_def)
  have "\<not> chain_of (ex_arena2 0x1000 0x2000 0x2080 []) [0x1000]"
    by (simp add: chain_of_def ex_arena2_def)
  with Allocate_acquires_at_most_one [OF run, of "[0x1000]"] run pre show ?thesis
    by (auto simp: ex_arena_def ex_arena2_def)
qed

subsection \<open>Blocks kept by \<^verbatim>\<open>Clean\<close> are used again\<close>



subsection \<open>The two failures of \<^verbatim>\<open>Allocate\<close>\<close>

text \<open>
  Claim C8, as the code has it. When \<^verbatim>\<open>Allocate\<close> must grow the chain (the object does not
  fit, the tail has no successor) and the memory source is exhausted, the call fails with
  \<^verbatim>\<open>std::bad_alloc\<close>. When the block was switched and the placement of lines 88 to 92
  still exceeds the new tail, the call fails with \<^verbatim>\<open>std::bad_alloc\<close> as well: the two
  failures reach the caller as the same error.
\<close>

theorem Allocate_failures_are_bad_alloc:
  "(exceeds nBlockSize T (align_fix T s) \<and> store s (pLast s) = Some nd \<and> next nd = 0 \<and>
    avail s = [] \<longrightarrow>
      fst (Allocate nBlockSize T s) = Inl Bad_alloc) \<and>
   (exceeds nBlockSize T (align_fix T t) \<and> next_block (align_fix T t) = (None, t2) \<and>
    pCurrent t2 AND alignof T \<noteq> 0 \<and>
    exceeds nBlockSize T (t2\<lparr>pCurrent := (pCurrent t2 AND alignof T) + alignof T\<rparr>) \<longrightarrow>
      fst (Allocate nBlockSize T t) = Inl Bad_alloc)"
proof (intro conjI impI; elim conjE)
  assume "exceeds nBlockSize T (align_fix T s)" "store s (pLast s) = Some nd" "next nd = 0"
    "avail s = []"
  then show "fst (Allocate nBlockSize T s) = Inl Bad_alloc"
    by (simp add: Allocate_def next_block_def align_fix_fields)
next
  assume "exceeds nBlockSize T (align_fix T t)" "next_block (align_fix T t) = (None, t2)"
    "pCurrent t2 AND alignof T \<noteq> 0"
    "exceeds nBlockSize T (t2\<lparr>pCurrent := (pCurrent t2 AND alignof T) + alignof T\<rparr>)"
  then show "fst (Allocate nBlockSize T t) = Inl Bad_alloc"
    by (simp add: Allocate_def place_def)
qed

text \<open>
  Both parts at blocks of 65536 bytes, the head at 262144, and a type of that size and
  alignment: with no memory left, and with a new block at 98304.
\<close>

theorem Allocate_failures_are_bad_alloc_witness:
  "exceeds 0x10000 ex_page (align_fix ex_page (ex_arena 0x40000 0x40001 [])) \<and>
   avail (ex_arena 0x40000 0x40001 []) = [] \<and>
   fst (Allocate 0x10000 ex_page (ex_arena 0x40000 0x40001 [])) = Inl Bad_alloc \<and>
   next_block (align_fix ex_page (ex_arena 0x40000 0x40001 [0x18000])) =
     (None, ex_arena2 0x40000 0x18000 0x18000 []) \<and>
   fst (Allocate 0x10000 ex_page (ex_arena 0x40000 0x40001 [0x18000])) = Inl Bad_alloc"
proof -
  let ?a = "ex_arena 0x40000 0x40001 []"
  let ?b = "ex_arena 0x40000 0x40001 [0x18000]"
  let ?c = "ex_arena2 0x40000 0x18000 0x18000 []"
  have oom: "exceeds 0x10000 ex_page (align_fix ex_page ?a)"
    "store ?a (pLast ?a) = Some \<lparr>next = 0\<rparr>" "next \<lparr>next = 0 :: uintptr_t\<rparr> = 0" "avail ?a = []"
    by (simp_all add: exceeds_def align_fix_def data_end_def ex_defs)
  have imp: "exceeds 0x10000 ex_page (align_fix ex_page ?b)"
    "next_block (align_fix ex_page ?b) = (None, ?c)"
    "pCurrent ?c AND alignof ex_page \<noteq> 0"
    "exceeds 0x10000 ex_page (?c\<lparr>pCurrent := (pCurrent ?c AND alignof ex_page) + alignof ex_page\<rparr>)"
    by (simp_all add: exceeds_def align_fix_def next_block_def data_end_def ex_defs fun_eq_iff)
  from Allocate_failures_are_bad_alloc [of "0x10000" ex_page ?a "\<lparr>next = 0\<rparr>" ?b ?c] oom imp
  show ?thesis
    by simp
qed

text \<open>
  Claim C8 asks for two errors the caller can tell apart. Two runs of the same calls that
  differ in the memory source only: in the first \<^verbatim>\<open>new\<close> fails, in the second \<^verbatim>\<open>new\<close>
  supplies a block and line 93 throws. The caller receives the same error.
\<close>

theorem Allocate_errors_not_distinct:
  "Allocate_seq 0x10000 [ex_char, ex_page] (ex_arena 0x40000 0x40000 []) =
     (Inl Bad_alloc, ex_arena 0x40000 0x40001 []) \<and>
   Allocate_seq 0x10000 [ex_char, ex_page] (ex_arena 0x40000 0x40000 [0x18000]) =
     (Inl Bad_alloc, ex_arena2 0x40000 0x18000 0x20000 [])"
  by (simp add: Allocate_eval ex_defs fun_eq_iff)

subsection \<open>Where the code departs from the specification\<close>

text \<open>
  Lines 76 and 87 test \<^verbatim>\<open>pCurrent & __alignof(T)\<close>, one bit of the cursor, where the low
  bits \<^verbatim>\<open>pCurrent & (__alignof(T) - 1)\<close> decide the alignment, and lines 78, 79, 89 and 90
  then replace the cursor by twice the alignment. \<^verbatim>\<open>Reset\<close> walks the chain with \<^verbatim>\<open>pLast\<close>
  itself and sets neither \<^verbatim>\<open>pLast\<close> nor \<^verbatim>\<open>pCurrent\<close> afterwards, as \<^verbatim>\<open>Clean\<close> does. The
  theorems of this subsection evaluate the code where this shows.
\<close>

text \<open>
  An object misplaced by the alignment step is constructed on bytes that are no storage
  of the container. In a block of 131064 bytes at 65536 an object of 65536 bytes aligned
  to 65536 is sent to 131072 in the head block, although a second block was linked, and
  its last bytes are the bytes of the \<^verbatim>\<open>next\<close> member of the head.
\<close>

lemma Allocate_across_next:
  "Allocate 131064 ex_page (ex_arena 0x10000 0x10000 [0x50000]) =
     (Inl Undefined_behaviour, ex_arena2 0x10000 0x50000 0x30000 [])"
  by (simp add: Allocate_eval ex_defs fun_eq_iff)

text \<open>
  Claim C1 (placement validity: the pointer is aligned, its bytes lie in one block and
  overlap no earlier object). With the default block size and the head at 4096, a \<^verbatim>\<open>char\<close>
  followed by an \<^verbatim>\<open>int32_t\<close> puts the latter at 4097, which is no multiple of 4. A second
  \<^verbatim>\<open>char\<close> would be constructed at 2, outside the only block. In a block of 131072 bytes
  at 131072 the third object is placed at 131072, on top of the first.
\<close>

theorem Allocate_placement_invalid:
  "static_assert_BlockSize 4088 \<and> static_assert_sizeof 4088 ex_char \<and>
   static_assert_sizeof 4088 ex_int \<and>
   CSeqAllocCont [0x1000] = Inr (ex_arena 0x1000 0x1000 []) \<and>
   Allocate_seq 4088 [ex_char, ex_int] (ex_arena 0x1000 0x1000 []) =
     (Inr [0x1000, 0x1001], ex_arena 0x1000 0x1005 []) \<and>
   \<not> is_aligned ex_int 0x1001 \<and>
   Allocate_seq 4088 [ex_char, ex_char] (ex_arena 0x1000 0x1000 []) =
     (Inl Undefined_behaviour, ex_arena 0x1000 3 []) \<and>
   dom (store (ex_arena 0x1000 3 [])) = {0x1000} \<and>
   \<not> within_block 4088 0x1000 ex_char 2 \<and>
   Allocate_seq 0x20000 [ex_bytes, ex_char, ex_page] (ex_arena 0x20000 0x20000 []) =
     (Inr [0x20000, 0x30000, 0x20000], ex_arena 0x20000 0x30000 []) \<and>
   ranges_overlap ex_page 0x20000 ex_bytes 0x20000"
  by (simp add: Allocate_eval ex_defs CSeqAllocCont_def static_assert_BlockSize_def
      static_assert_sizeof_def ranges_overlap_def is_aligned_def)

text \<open>
  Claim C2 (after \<^verbatim>\<open>Reset\<close> the tail is the head and the cursor is the start of the head).
  Two objects of 4088 bytes fill two blocks. \<^verbatim>\<open>Reset\<close> releases the second block and
  unlinks it, but leaves \<^verbatim>\<open>pLast\<close> null and \<^verbatim>\<open>pCurrent\<close> inside the released block; the next
  \<^verbatim>\<open>Allocate\<close> reads \<^verbatim>\<open>pLast->next\<close> through the null pointer.
\<close>

theorem Reset_leaves_tail_null:
  "Allocate_seq 4088 [ex_buf, ex_buf] (ex_arena 0x1000 0x1000 [0x2000]) =
     (Inr [0x1000, 0x2000], ex_arena2 0x1000 0x2000 0x2FF8 []) \<and>
   Reset (ex_arena2 0x1000 0x2000 0x2FF8 []) =
     Inr \<lparr>pHead = 0x1000, pLast = 0, pCurrent = 0x2FF8, store = [0x1000 \<mapsto> \<lparr>next = 0\<rparr>],
          avail = [], released = [0x2000]\<rparr> \<and>
   data_begin 0x1000 \<noteq> 0x2FF8 \<and>
   fst (Allocate 4088 ex_char
         \<lparr>pHead = 0x1000, pLast = 0, pCurrent = 0x2FF8, store = [0x1000 \<mapsto> \<lparr>next = 0\<rparr>],
          avail = [], released = [0x2000]\<rparr>) = Inl Undefined_behaviour"
  by (simp add: Allocate_eval ex_defs Reset_def fun_eq_iff)

text \<open>
  Claim C3 (every operation preserves the ready state: tail reachable from the head,
  cursor in the storage of the tail). \<^verbatim>\<open>Reset\<close> takes a ready container of two blocks to
  one whose tail pointer is null. \<^verbatim>\<open>Allocate\<close> takes a ready container with a full block
  of 131072 bytes at 131072 to one whose tail is the new block at 327680 and whose cursor
  is at 196608, in the head block, where the object was constructed.
\<close>

theorem ready_not_preserved:
  "ready 4088 (ex_arena2 0x1000 0x2000 0x2FF8 []) \<and>
   Reset (ex_arena2 0x1000 0x2000 0x2FF8 []) =
     Inr \<lparr>pHead = 0x1000, pLast = 0, pCurrent = 0x2FF8, store = [0x1000 \<mapsto> \<lparr>next = 0\<rparr>],
          avail = [], released = [0x2000]\<rparr> \<and>
   \<not> tail_reachable
       \<lparr>pHead = 0x1000, pLast = 0, pCurrent = 0x2FF8, store = [0x1000 \<mapsto> \<lparr>next = 0\<rparr>],
        avail = [], released = [0x2000]\<rparr> \<and>
   \<not> cursor_in_tail 4088
       \<lparr>pHead = 0x1000, pLast = 0, pCurrent = 0x2FF8, store = [0x1000 \<mapsto> \<lparr>next = 0\<rparr>],
        avail = [], released = [0x2000]\<rparr> \<and>
   Allocate_seq 0x20000 [ex_bytes, ex_bytes] (ex_arena 0x20000 0x20000 [0x50000]) =
     (Inr [0x20000, 0x30000], ex_arena 0x20000 0x40000 [0x50000]) \<and>
   ready 0x20000 (ex_arena 0x20000 0x40000 [0x50000]) \<and>
   Allocate 0x20000 ex_page (ex_arena 0x20000 0x40000 [0x50000]) =
     (Inr 0x20000, ex_arena2 0x20000 0x50000 0x30000 []) \<and>
   \<not> cursor_in_tail 0x20000 (ex_arena2 0x20000 0x50000 0x30000 []) \<and>
   \<not> ready 0x20000 (ex_arena2 0x20000 0x50000 0x30000 [])"
proof -
  let ?r = "\<lparr>pHead = 0x1000, pLast = 0, pCurrent = 0x2FF8, store = [0x1000 \<mapsto> \<lparr>next = 0\<rparr>],
             avail = [], released = [0x2000]\<rparr> :: arena"
  have "chain_of (ex_arena2 0x1000 0x2000 0x2FF8 []) [0x1000, 0x2000]"
    "pLast (ex_arena2 0x1000 0x2000 0x2FF8 []) \<in> set [0x1000, 0x2000]"
    by (simp_all add: chain_of_def ex_defs)
  then have "tail_reachable (ex_arena2 0x1000 0x2000 0x2FF8 [])"
    unfolding tail_reachable_def by blast
  moreover have "cursor_in_tail 4088 (ex_arena2 0x1000 0x2000 0x2FF8 [])"
    by (simp add: cursor_in_tail_def data_begin_def data_end_def ex_defs)
  ultimately have before: "ready 4088 (ex_arena2 0x1000 0x2000 0x2FF8 [])"
    by (simp add: ready_def)
  have reset: "Reset (ex_arena2 0x1000 0x2000 0x2FF8 []) = Inr ?r"
    by (simp add: Reset_def ex_defs fun_eq_iff)
  have "pLast ?r = 0"
    by simp
  then have tail: "\<not> tail_reachable ?r"
    using tail_reachable_not_null by blast
  have cursor: "\<not> cursor_in_tail 4088 ?r"
    by (simp add: cursor_in_tail_def data_begin_def data_end_def)
  have fill: "Allocate_seq 0x20000 [ex_bytes, ex_bytes] (ex_arena 0x20000 0x20000 [0x50000]) =
      (Inr [0x20000, 0x30000], ex_arena 0x20000 0x40000 [0x50000])"
    by (simp add: Allocate_eval ex_defs)
  have "chain_of (ex_arena 0x20000 0x40000 [0x50000]) [0x20000]"
    "pLast (ex_arena 0x20000 0x40000 [0x50000]) \<in> set [0x20000]"
    by (simp_all add: chain_of_def ex_defs)
  then have "tail_reachable (ex_arena 0x20000 0x40000 [0x50000])"
    unfolding tail_reachable_def by blast
  moreover have "cursor_in_tail 0x20000 (ex_arena 0x20000 0x40000 [0x50000])"
    by (simp add: cursor_in_tail_def data_begin_def data_end_def ex_defs)
  ultimately have before': "ready 0x20000 (ex_arena 0x20000 0x40000 [0x50000])"
    by (simp add: ready_def)
  have alloc: "Allocate 0x20000 ex_page (ex_arena 0x20000 0x40000 [0x50000]) =
      (Inr 0x20000, ex_arena2 0x20000 0x50000 0x30000 [])"
    by (simp add: Allocate_eval ex_defs fun_eq_iff)
  have cursor': "\<not> cursor_in_tail 0x20000 (ex_arena2 0x20000 0x50000 0x30000 [])"
    by (simp add: cursor_in_tail_def data_begin_def data_end_def ex_defs)
  then have "\<not> ready 0x20000 (ex_arena2 0x20000 0x50000 0x30000 [])"
    by (simp add: ready_def)
  with before reset tail cursor fill before' alloc cursor' show ?thesis
    by (intro conjI)
qed

text \<open>
  Claim C4 (consecutive allocations in the same block return increasing addresses). In a
  block of 131072 bytes at 131072, a \<^verbatim>\<open>char\<close> is placed at 196608 and the next object,
  aligned to 65536, at 131072: both in the head block, which stays the tail, the later
  one lower.
\<close>

theorem Allocate_same_block_not_increasing:
  "static_assert_BlockSize 0x20000 \<and> static_assert_sizeof 0x20000 ex_page \<and>
   Allocate_seq 0x20000 [ex_bytes, ex_char, ex_page] (ex_arena 0x20000 0x20000 []) =
     (Inr [0x20000, 0x30000, 0x20000], ex_arena 0x20000 0x30000 []) \<and>
   within_block 0x20000 0x20000 ex_char 0x30000 \<and>
   within_block 0x20000 0x20000 ex_page 0x20000 \<and>
   \<not> (0x30000 :: uintptr_t) < 0x20000"
  by (simp add: Allocate_eval ex_defs static_assert_BlockSize_def static_assert_sizeof_def)

text \<open>
  Claim C5 (the error is signalled when the aligned placement in the new block does not
  fit, and never when size plus worst-case padding fits in a block). First part: blocks of
  160 bytes, a type of 160 bytes aligned to 32, a new block at 8208. The next aligned
  address 8224 leaves 144 bytes, yet the call returns 8208, unaligned, and no error.
  Second part: blocks of 131071 bytes hold 65536 bytes after any padding below 65536, and
  the new block at 65536 is aligned as it is, yet the call throws.
\<close>

theorem Allocate_impossible_branch_misfires:
  "static_assert_BlockSize 160 \<and> static_assert_sizeof 160 ex_wide \<and>
   Allocate_seq 160 [ex_char, ex_wide] (ex_arena 0x1000 0x1000 [0x2010]) =
     (Inr [0x1000, 0x2010], ex_arena2 0x1000 0x2010 0x20B0 []) \<and>
   round_up ex_wide 0x2010 = 0x2020 \<and>
   round_up ex_wide 0x2010 + unat (sizeof ex_wide) > unat (data_end 160 0x2010) \<and>
   \<not> is_aligned ex_wide 0x2010 \<and>
   static_assert_BlockSize 0x1FFFF \<and> static_assert_sizeof 0x1FFFF ex_page \<and>
   unat (sizeof ex_page) + (unat (alignof ex_page) - 1) \<le> unat (0x1FFFF :: 32 word) \<and>
   Allocate_seq 0x1FFFF [ex_span, ex_page] (ex_arena 0x50000 0x50000 [0x10000]) =
     (Inl Bad_alloc, ex_arena2 0x50000 0x10000 0x20000 []) \<and>
   round_up ex_page 0x10000 = 0x10000"
  by (simp add: Allocate_eval ex_defs static_assert_BlockSize_def static_assert_sizeof_def
      round_up_def is_aligned_def fun_eq_iff)

end
